theory Spec2Isabelle
  imports Main "HOL-Library.Word" "HOL-Library.Sublist" "HOL-Library.AList"
begin

unbundle bit_operations_syntax

section \<open>Strings of the Go standard library\<close>

text \<open>
  A Go string is a sequence of bytes; it is modelled as a \<open>string\<close> (a list of 8-bit
  characters). The functions of package \<open>strings\<close> that the plugin calls are written
  out on bytes. \<open>strings.ToLower\<close> and \<open>strings.TrimSpace\<close> are modelled on the ASCII
  range, where Go works byte by byte: the letters \<open>A\<close> to \<open>Z\<close> are lowered, the six
  ASCII white-space bytes are trimmed, and every other byte is left as it is.
\<close>

definition isUpperASCII :: "char \<Rightarrow> bool" where
  "isUpperASCII c = (65 \<le> (of_char c :: nat) \<and> (of_char c :: nat) \<le> 90)"

definition toLowerByte :: "char \<Rightarrow> char" where
  "toLowerByte c = (if isUpperASCII c then char_of ((of_char c :: nat) + 32) else c)"

definition ToLower :: "string \<Rightarrow> string" where
  "ToLower s = map toLowerByte s"

definition isSpaceASCII :: "char \<Rightarrow> bool" where
  "isSpaceASCII c = ((of_char c :: nat) \<in> {9, 10, 11, 12, 13, 32})"

definition TrimSpace :: "string \<Rightarrow> string" where
  "TrimSpace s = rev (dropWhile isSpaceASCII (rev (dropWhile isSpaceASCII s)))"

text \<open>
  \<open>strings.Index(s, sep)\<close> is the byte offset of the first occurrence of \<open>sep\<close> in
  \<open>s\<close>; Go's result \<open>-1\<close> (no occurrence) is \<open>None\<close>.
\<close>

fun Index :: "string \<Rightarrow> string \<Rightarrow> nat option" where
  "Index [] sep = (if sep = [] then Some 0 else None)"
| "Index (c # cs) sep =
     (if prefix sep (c # cs) then Some 0 else map_option Suc (Index cs sep))"

section \<open>ArtistNameParser\<close>

text \<open>
  The two \<open>for ... range\<close> loops of \<open>parsePrimaryArtist\<close> run over a fixed list of
  separators and return from inside the loop at the first separator that occurs; a loop
  that runs to its end yields \<open>None\<close> and the function goes on.
\<close>

fun featLoop :: "string \<Rightarrow> string \<Rightarrow> string list \<Rightarrow> (string \<times> string) option" where
  "featLoop artist lower [] = None"
| "featLoop artist lower (sep # seps) =
     (case Index lower sep of
        Some i \<Rightarrow> Some (TrimSpace (take i artist), TrimSpace (drop i artist))
      | None \<Rightarrow> featLoop artist lower seps)"

fun coArtistLoop :: "string \<Rightarrow> string list \<Rightarrow> (string \<times> string) option" where
  "coArtistLoop artist [] = None"
| "coArtistLoop artist (sep # seps) =
     (case Index artist sep of
        Some i \<Rightarrow> Some (TrimSpace (take i artist), [])
      | None \<Rightarrow> coArtistLoop artist seps)"

definition parsePrimaryArtist :: "string \<Rightarrow> string \<times> string" where
  "parsePrimaryArtist artist0 =
     (let artist = TrimSpace artist0 in
      if artist = [] then ([], [])
      else
        let lower = ToLower artist in
        case featLoop artist lower ['' feat. '', '' ft. '', '' featuring ''] of
          Some r \<Rightarrow> r
        | None \<Rightarrow>
            (case coArtistLoop artist ['' & '', '' / ''] of
               Some r \<Rightarrow> r
             | None \<Rightarrow> (artist, [])))"


section \<open>SHA-256 and hexadecimal encoding\<close>

text \<open>
  \<open>crypto/sha256\<close> and \<open>encoding/hex\<close> belong to the Go standard library.
  \<open>sha256.Sum256\<close> computes the SHA-256 digest of FIPS 180-4, which is written out
  here on 32-bit words; \<open>hex.EncodeToString\<close> writes two lower-case hexadecimal digits
  per byte.
\<close>

type_synonym byte = "8 word"
type_synonym u32 = "32 word"

definition K256 :: "u32 list" where
  "K256 = concat
    [[0x428a2f98, 0x71374491, 0xb5c0fbcf, 0xe9b5dba5],
     [0x3956c25b, 0x59f111f1, 0x923f82a4, 0xab1c5ed5],
     [0xd807aa98, 0x12835b01, 0x243185be, 0x550c7dc3],
     [0x72be5d74, 0x80deb1fe, 0x9bdc06a7, 0xc19bf174],
     [0xe49b69c1, 0xefbe4786, 0x0fc19dc6, 0x240ca1cc],
     [0x2de92c6f, 0x4a7484aa, 0x5cb0a9dc, 0x76f988da],
     [0x983e5152, 0xa831c66d, 0xb00327c8, 0xbf597fc7],
     [0xc6e00bf3, 0xd5a79147, 0x06ca6351, 0x14292967],
     [0x27b70a85, 0x2e1b2138, 0x4d2c6dfc, 0x53380d13],
     [0x650a7354, 0x766a0abb, 0x81c2c92e, 0x92722c85],
     [0xa2bfe8a1, 0xa81a664b, 0xc24b8b70, 0xc76c51a3],
     [0xd192e819, 0xd6990624, 0xf40e3585, 0x106aa070],
     [0x19a4c116, 0x1e376c08, 0x2748774c, 0x34b0bcb5],
     [0x391c0cb3, 0x4ed8aa4a, 0x5b9cca4f, 0x682e6ff3],
     [0x748f82ee, 0x78a5636f, 0x84c87814, 0x8cc70208],
     [0x90befffa, 0xa4506ceb, 0xbef9a3f7, 0xc67178f2]]"

definition H256 :: "u32 list" where
  "H256 =
    [0x6a09e667, 0xbb67ae85, 0x3c6ef372, 0xa54ff53a,
     0x510e527f, 0x9b05688c, 0x1f83d9ab, 0x5be0cd19]"

definition rotr :: "nat \<Rightarrow> u32 \<Rightarrow> u32" where
  "rotr n x = drop_bit n x OR push_bit (32 - n) x"

definition bsig0 :: "u32 \<Rightarrow> u32" where
  "bsig0 x = rotr 2 x XOR rotr 13 x XOR rotr 22 x"

definition bsig1 :: "u32 \<Rightarrow> u32" where
  "bsig1 x = rotr 6 x XOR rotr 11 x XOR rotr 25 x"

definition ssig0 :: "u32 \<Rightarrow> u32" where
  "ssig0 x = rotr 7 x XOR rotr 18 x XOR drop_bit 3 x"

definition ssig1 :: "u32 \<Rightarrow> u32" where
  "ssig1 x = rotr 17 x XOR rotr 19 x XOR drop_bit 10 x"

definition ch :: "u32 \<Rightarrow> u32 \<Rightarrow> u32 \<Rightarrow> u32" where
  "ch x y z = (x AND y) XOR (NOT x AND z)"

definition maj :: "u32 \<Rightarrow> u32 \<Rightarrow> u32 \<Rightarrow> u32" where
  "maj x y z = (x AND y) XOR (x AND z) XOR (y AND z)"

definition be32 :: "byte list \<Rightarrow> u32" where
  "be32 bs = foldl (\<lambda>acc b. push_bit 8 acc OR ucast b) 0 bs"

definition bytes32 :: "u32 \<Rightarrow> byte list" where
  "bytes32 x = map (\<lambda>i. ucast (drop_bit (8 * i) x)) [3, 2, 1, 0]"

definition bytes64 :: "64 word \<Rightarrow> byte list" where
  "bytes64 x = map (\<lambda>i. ucast (drop_bit (8 * i) x)) [7, 6, 5, 4, 3, 2, 1, 0]"

definition sha256Pad :: "byte list \<Rightarrow> byte list" where
  "sha256Pad m =
     m @ [0x80] @ replicate ((119 - length m mod 64) mod 64) 0
       @ bytes64 (of_nat (8 * length m))"

definition sha256Blocks :: "byte list \<Rightarrow> u32 list list" where
  "sha256Blocks p =
     map (\<lambda>i. map (\<lambda>j. be32 (take 4 (drop (64 * i + 4 * j) p))) [0..<16])
       [0..<length p div 64]"

definition sha256Schedule :: "u32 list \<Rightarrow> u32 list" where
  "sha256Schedule w16 =
     foldl (\<lambda>w t. w @ [ssig1 (w ! (t - 2)) + w ! (t - 7) + ssig0 (w ! (t - 15)) + w ! (t - 16)])
       w16 [16..<64]"

definition sha256Round :: "u32 list \<Rightarrow> u32 \<times> u32 \<Rightarrow> u32 list" where
  "sha256Round s kw =
     (case s of
        [a, b, c, d, e, f, g, h] \<Rightarrow>
          (let t1 = h + bsig1 e + ch e f g + fst kw + snd kw;
               t2 = bsig0 a + maj a b c
           in [t1 + t2, a, b, c, d + t1, e, f, g])
      | _ \<Rightarrow> s)"

definition sha256Block :: "u32 list \<Rightarrow> u32 list \<Rightarrow> u32 list" where
  "sha256Block h w16 =
     map (\<lambda>(x, y). x + y) (zip h (foldl sha256Round h (zip K256 (sha256Schedule w16))))"

definition sha256Sum256 :: "byte list \<Rightarrow> byte list" where
  "sha256Sum256 m = concat (map bytes32 (foldl sha256Block H256 (sha256Blocks (sha256Pad m))))"

definition hexDigit :: "nat \<Rightarrow> char" where
  "hexDigit n = ''0123456789abcdef'' ! n"

definition hexByte :: "byte \<Rightarrow> string" where
  "hexByte b = [hexDigit (unat (drop_bit 4 b)), hexDigit (unat (b AND 0x0f))]"

definition hexEncodeToString :: "byte list \<Rightarrow> string" where
  "hexEncodeToString bs = concat (map hexByte bs)"

definition bytesOf :: "string \<Rightarrow> byte list" where
  "bytesOf s = map of_char s"

section \<open>CacheKeyDeriver\<close>

text \<open>
  \<open>cacheKeyInput\<close> is the string that \<open>spotifyCacheKey\<close> hashes: the three
  lower-cased fields joined by NUL bytes.
\<close>

definition cacheKeyInput :: "string \<Rightarrow> string \<Rightarrow> string \<Rightarrow> string" where
  "cacheKeyInput artist title album =
     ToLower artist @ [CHR 0x00] @ ToLower title @ [CHR 0x00] @ ToLower album"

definition spotifyCacheKey :: "string \<Rightarrow> string \<Rightarrow> string \<Rightarrow> string" where
  "spotifyCacheKey artist title album =
     (let h = sha256Sum256 (bytesOf (cacheKeyInput artist title album))
      in ''spotify.url.'' @ hexEncodeToString (take 8 h))"


section \<open>Formatting and URL escaping\<close>

text \<open>
  \<open>url.PathEscape\<close> leaves letters, digits, the marks \<open>- _ . ~\<close> and the reserved
  bytes \<open>$ & + : = @\<close> as they are and writes every other byte as \<open>%\<close> followed by two
  upper-case hexadecimal digits.
\<close>

definition isAlnumASCII :: "char \<Rightarrow> bool" where
  "isAlnumASCII c =
     (let n = (of_char c :: nat)
      in (97 \<le> n \<and> n \<le> 122) \<or> (65 \<le> n \<and> n \<le> 90) \<or> (48 \<le> n \<and> n \<le> 57))"

definition shouldEscape :: "char \<Rightarrow> bool" where
  "shouldEscape c =
     (if isAlnumASCII c then False
      else if c \<in> set ''-_.~'' then False
      else if c \<in> set ''$&+,/:;=?@'' then c \<in> set ''/;,?''
      else True)"

definition upperhex :: "nat \<Rightarrow> char" where
  "upperhex n = ''0123456789ABCDEF'' ! n"

definition PathEscape :: "string \<Rightarrow> string" where
  "PathEscape s =
     concat (map (\<lambda>c. if shouldEscape c
                        then [CHR ''%'', upperhex ((of_char c :: nat) div 16),
                              upperhex ((of_char c :: nat) mod 16)]
                        else [c]) s)"

text \<open>
  The verbs of \<open>fmt.Sprintf\<close> that the plugin uses: \<open>%s\<close> copies a string, \<open>%d\<close>
  writes a number in decimal, \<open>%v\<close> writes a boolean as \<open>true\<close> or \<open>false\<close> and an
  error as its message, and \<open>%q\<close> is \<open>strconv.Quote\<close>: the string in double quotes,
  with the quote and the backslash escaped, the control bytes written as Go escapes and
  every other byte copied.
\<close>

fun showNat :: "nat \<Rightarrow> string" where
  "showNat n =
     (if n < 10 then [''0123456789'' ! n]
      else showNat (n div 10) @ [''0123456789'' ! (n mod 10)])"

definition showBool :: "bool \<Rightarrow> string" where
  "showBool b = (if b then ''true'' else ''false'')"

definition quoteByte :: "char \<Rightarrow> string" where
  "quoteByte c =
     (let n = (of_char c :: nat) in
      if n = 0x22 \<or> n = 0x5C then [CHR 0x5C, c]
      else if 0x20 \<le> n \<and> n < 0x7F then [c]
      else if n = 7 then [CHR 0x5C, CHR ''a'']
      else if n = 8 then [CHR 0x5C, CHR ''b'']
      else if n = 12 then [CHR 0x5C, CHR ''f'']
      else if n = 10 then [CHR 0x5C, CHR ''n'']
      else if n = 13 then [CHR 0x5C, CHR ''r'']
      else if n = 9 then [CHR 0x5C, CHR ''t'']
      else if n = 11 then [CHR 0x5C, CHR ''v'']
      else if n < 0x20 \<or> n = 0x7F
        then [CHR 0x5C, CHR ''x'', hexDigit (n div 16), hexDigit (n mod 16)]
      else [c])"

definition Quote :: "string \<Rightarrow> string" where
  "Quote s = [CHR 0x22] @ concat (map quoteByte s) @ [CHR 0x22]"

section \<open>Search links\<close>

definition buildSpotifySearchURL :: "string \<Rightarrow> string \<Rightarrow> string" where
  "buildSpotifySearchURL title artist =
     (let query = TrimSpace (artist @ '' '' @ title) in
      if query = [] then ''https://open.spotify.com/search/''
      else ''https://open.spotify.com/search/'' @ PathEscape query)"

definition spotifySearch :: "string \<Rightarrow> string" where
  "spotifySearch term0 =
     (let term = TrimSpace term0 in
      if term = [] then []
      else ''https://open.spotify.com/search/'' @ PathEscape term)"

definition spotifyCacheTTLHit :: "64 word" where
  "spotifyCacheTTLHit = 30 * 24 * 60 * 60"

definition spotifyCacheTTLMiss :: "64 word" where
  "spotifyCacheTTLMiss = 4 * 60 * 60"


section \<open>Data model\<close>

text \<open>
  \<open>scrobbler.TrackInfo\<close>, \<open>scrobbler.NowPlayingRequest\<close> and
  \<open>scrobbler.IsAuthorizedRequest\<close> are declared in the host's plugin kit; the records
  hold the fields that the plugin reads. A track's duration is a whole number of seconds
  in the \<open>int32\<close> range, on which the conversion \<open>int32(\<dots>)\<close> of the source is
  the identity and \<open>int64(\<dots>)\<close> is sign extension.
\<close>

record ArtistRef =
  Name :: string

record TrackInfo =
  ID :: string
  Title :: string
  Album :: string
  Artist :: string
  Artists :: "ArtistRef list"
  Duration :: "32 word"
  MBZRecordingID :: "string"

record NowPlayingRequest =
  np_Username :: string
  np_Track :: TrackInfo
  np_Position :: "32 word"

record IsAuthorizedRequest =
  ia_Username :: string

record userToken =
  Username :: string
  Token :: string

record listenBrainzResult =
  SpotifyTrackIDs :: "string list"

text \<open>
  The presence document is declared with the gateway code of the plugin; the records hold
  the fields that \<open>NowPlaying\<close> sets.
\<close>

record activityTimestamps =
  Start :: "64 word"
  End :: "64 word"

record activityAssets =
  LargeImage :: string
  LargeText :: string
  LargeURL :: string
  SmallImage :: string
  SmallText :: string

record activity =
  Application :: string
  act_Name :: string
  act_Type :: int
  Details :: string
  DetailsURL :: string
  State :: string
  StateURL :: string
  StatusDisplayType :: "int option"
  Timestamps :: activityTimestamps
  Assets :: activityAssets

datatype scrobblerError =
    ScrobblerErrorNotAuthorized string
  | ScrobblerErrorRetryLater string

section \<open>Host services and collaborators\<close>

text \<open>
  Every call that leaves the plugin is an event; a function of the plugin returns its
  result together with the events it has issued, in order. What a service answers is a
  field of the record \<open>host\<close>. An error value of Go is its message; \<open>nil\<close> is
  \<open>None\<close>. \<open>json.Unmarshal\<close> of the standard library is a field for each of the
  two target types: it answers \<open>Inl\<close> with the error or \<open>Inr\<close> with the decoded slice.
  The gateway calls \<open>rpc.connect\<close> and \<open>rpc.sendActivity\<close> and the artwork lookup
  \<open>getImageURL\<close> are collaborators of \<open>NowPlaying\<close>.
\<close>

datatype LogLevel = LogDebug | LogInfo | LogWarn | LogError

datatype event =
    Log LogLevel string
  | CacheGetString string
  | CacheSetString string string "64 word"
  | HTTPSend string string "(string \<times> string) list" string
  | SchedulerCancelSchedule string
  | SchedulerScheduleOneTime "32 word" string string
  | RpcConnect string string
  | RpcSendActivity string string string activity
  | GetImageURL string string

record host =
  pdkGetConfig :: "string \<Rightarrow> string \<times> bool"
  cacheGetString :: "string \<Rightarrow> string \<times> bool \<times> string option"
  httpSend :: "string \<Rightarrow> string \<Rightarrow> string \<Rightarrow> 16 word \<times> string"
  schedulerScheduleOneTime :: "32 word \<Rightarrow> string \<Rightarrow> string \<Rightarrow> string \<times> string option"
  rpcConnect :: "string \<Rightarrow> string \<Rightarrow> string option"
  rpcSendActivity :: "string \<Rightarrow> string \<Rightarrow> string \<Rightarrow> activity \<Rightarrow> string option"
  getImageURL :: "string \<Rightarrow> string \<Rightarrow> string"
  timeNowUnix :: "64 word"
  jsonUnmarshalResults :: "string \<Rightarrow> string + listenBrainzResult list"
  jsonUnmarshalUsers :: "string \<Rightarrow> string + userToken list"

definition clientIDKey :: string where "clientIDKey = ''clientid''"
definition usersKey :: string where "usersKey = ''users''"
definition activityNameKey :: string where "activityNameKey = ''activityname''"
definition navLogoOverlayKey :: string where "navLogoOverlayKey = ''navlogooverlay''"

definition navidromeLogoURL :: string where
  "navidromeLogoURL =
     ''https://cdn.jsdelivr.net/gh/homarr-labs/dashboard-icons/webp/navidrome.webp''"

definition activityNameDefault :: string where "activityNameDefault = ''Default''"
definition activityNameTrack :: string where "activityNameTrack = ''Track''"
definition activityNameArtist :: string where "activityNameArtist = ''Artist''"
definition activityNameAlbum :: string where "activityNameAlbum = ''Album''"

text \<open>
  Modelled from the spec: the payload tag \<open>payloadClearActivity\<close> is a constant of the
  gateway code; the spec names it the clear-activity tag.
\<close>

definition payloadClearActivity :: string where
  "payloadClearActivity = ''clear-activity''"

section \<open>ExternalLookupAdapter\<close>

text \<open>
  The nested loops of \<open>parseSpotifyID\<close> return the first identifier that is not
  empty: \<open>firstID\<close> is the inner loop, \<open>firstResultID\<close> the outer one, and
  \<open>None\<close> is a loop that has run to its end.
\<close>

fun firstID :: "string list \<Rightarrow> string option" where
  "firstID [] = None"
| "firstID (i # ids) = (if i \<noteq> [] then Some i else firstID ids)"

fun firstResultID :: "listenBrainzResult list \<Rightarrow> string option" where
  "firstResultID [] = None"
| "firstResultID (r # rs) =
     (case firstID (SpotifyTrackIDs r) of
        Some i \<Rightarrow> Some i
      | None \<Rightarrow> firstResultID rs)"

definition parseSpotifyID :: "host \<Rightarrow> string \<Rightarrow> string" where
  "parseSpotifyID w body =
     (case jsonUnmarshalResults w body of
        Inl err \<Rightarrow> []
      | Inr results \<Rightarrow>
          (case firstResultID results of
             Some i \<Rightarrow> i
           | None \<Rightarrow> []))"

definition mbidEndpoint :: string where
  "mbidEndpoint = ''https://labs.api.listenbrainz.org/spotify-id-from-mbid/json''"

definition metadataEndpoint :: string where
  "metadataEndpoint = ''https://labs.api.listenbrainz.org/spotify-id-from-metadata/json''"

definition trySpotifyFromMBID :: "host \<Rightarrow> string \<Rightarrow> string \<times> event list" where
  \<open>trySpotifyFromMBID w mbid =
     (let body = ''[{"recording_mbid":"'' @ mbid @ ''"}]'';
          req = HTTPSend ''POST'' mbidEndpoint [(''Content-Type'', ''application/json'')] body;
          (status, respBody) = httpSend w ''POST'' mbidEndpoint body
      in if status < 200 \<or> status \<ge> 300
         then ([], [req, Log LogInfo (''ListenBrainz MBID lookup failed: HTTP ''
                       @ showNat (unat status) @ '', body='' @ respBody)])
         else
           let i = parseSpotifyID w respBody
           in (i, [req] @
                  (if i = []
                   then [Log LogInfo
                          (''ListenBrainz MBID lookup returned no spotify_track_id for mbid=''
                             @ mbid @ '', body='' @ respBody)]
                   else [])))\<close>

definition trySpotifyFromMetadata ::
    "host \<Rightarrow> string \<Rightarrow> string \<Rightarrow> string \<Rightarrow> string \<times> event list" where
  \<open>trySpotifyFromMetadata w artist title album =
     (let payload = ''[{"artist_name":'' @ Quote artist @ '',"track_name":'' @ Quote title
                      @ '',"release_name":'' @ Quote album @ ''}]'';
          req = HTTPSend ''POST'' metadataEndpoint [(''Content-Type'', ''application/json'')] payload;
          e0 = [Log LogInfo (''ListenBrainz metadata request: '' @ payload), req];
          (status, respBody) = httpSend w ''POST'' metadataEndpoint payload
      in if status < 200 \<or> status \<ge> 300
         then ([], e0 @ [Log LogInfo (''ListenBrainz metadata lookup failed: HTTP ''
                            @ showNat (unat status) @ '', body='' @ respBody)])
         else
           let e1 = e0 @ [Log LogInfo (''ListenBrainz metadata response: HTTP ''
                            @ showNat (unat status) @ '', body='' @ respBody)];
               i = parseSpotifyID w respBody
           in (i, e1 @
                  (if i = []
                   then [Log LogInfo (''ListenBrainz metadata returned no spotify_track_id for ''
                            @ Quote artist @ '' - '' @ Quote title)]
                   else [])))\<close>


section \<open>SpotifyURLResolver\<close>

text \<open>
  \<open>resolveSpotifyURL\<close> returns from four places. \<open>resolveSearch\<close> is its last
  step (the search link), \<open>resolveMetadata\<close> the step before it, which falls through
  to the last one, and \<open>resolveSpotifyURL\<close> holds the cache read and the lookup by
  recording identifier. Each step appends its events to those issued so far.
\<close>

definition directURL :: "string \<Rightarrow> string" where
  "directURL trackID = ''https://open.spotify.com/track/'' @ trackID"

definition resolveSearch ::
    "TrackInfo \<Rightarrow> string \<Rightarrow> string \<Rightarrow> event list \<Rightarrow> string \<times> event list" where
  "resolveSearch track primary cacheKey es =
     (let searchURL = buildSpotifySearchURL (Title track) (Artist track)
      in (searchURL,
          es @ [CacheSetString cacheKey searchURL spotifyCacheTTLMiss,
                Log LogInfo (''Spotify resolution missed, falling back to search URL for ''
                  @ Quote primary @ '' - '' @ Quote (Title track) @ '': '' @ searchURL)]))"

definition resolveMetadata ::
    "host \<Rightarrow> TrackInfo \<Rightarrow> string \<Rightarrow> string \<Rightarrow> event list \<Rightarrow> string \<times> event list" where
  "resolveMetadata w track primary cacheKey es =
     (if primary \<noteq> [] \<and> Title track \<noteq> []
      then
        (let (trackID, em) = trySpotifyFromMetadata w primary (Title track) (Album track)
         in if trackID \<noteq> []
            then (directURL trackID,
                  es @ em @
                  [CacheSetString cacheKey (directURL trackID) spotifyCacheTTLHit,
                   Log LogInfo (''Resolved Spotify via metadata for '' @ Quote primary
                     @ '' - '' @ Quote (Title track) @ '': '' @ directURL trackID)])
            else resolveSearch track primary cacheKey (es @ em))
      else resolveSearch track primary cacheKey es)"

definition primaryArtist :: "TrackInfo \<Rightarrow> string" where
  "primaryArtist track =
     (let primary = fst (parsePrimaryArtist (Artist track))
      in case Artists track of
           [] \<Rightarrow> primary
         | a # _ \<Rightarrow> if primary = [] then Name a else primary)"

definition resolveSpotifyURL :: "host \<Rightarrow> TrackInfo \<Rightarrow> string \<times> event list" where
  "resolveSpotifyURL w track =
     (let primary = primaryArtist track;
          cacheKey = spotifyCacheKey primary (Title track) (Album track);
          (cached, exists, err) = cacheGetString w cacheKey
      in if err = None \<and> exists
         then (cached,
               [CacheGetString cacheKey,
                Log LogInfo (''Spotify URL cache hit for '' @ Quote primary @ '' - ''
                  @ Quote (Title track) @ [CHR 0x20, CHR 0xE2, CHR 0x86, CHR 0x92, CHR 0x20]
                  @ cached)])
         else
           let e0 = [CacheGetString cacheKey,
                     Log LogInfo (''Resolving Spotify URL for: artist='' @ Quote primary
                       @ '' title='' @ Quote (Title track) @ '' album='' @ Quote (Album track)
                       @ '' mbid='' @ Quote (MBZRecordingID track))]
           in if MBZRecordingID track \<noteq> []
              then
                (let (trackID, em) = trySpotifyFromMBID w (MBZRecordingID track)
                 in if trackID \<noteq> []
                    then (directURL trackID,
                          e0 @ em @
                          [CacheSetString cacheKey (directURL trackID) spotifyCacheTTLHit,
                           Log LogInfo (''Resolved Spotify via MBID for '' @ Quote (Title track)
                             @ '': '' @ directURL trackID)])
                    else resolveMetadata w track primary cacheKey
                           (e0 @ em @
                            [Log LogInfo (''MBID lookup did not return a Spotify ID, trying metadata''
                               @ [CHR 0xE2, CHR 0x80, CHR 0xA6])]))
              else resolveMetadata w track primary cacheKey
                     (e0 @ [Log LogInfo ''No MBZRecordingID available, skipping MBID lookup'']))"

section \<open>Configuration\<close>

text \<open>
  The users of the configuration are a Go map from user name to token; it is an
  association list here, written with \<open>AList.update\<close> and read with \<open>map_of\<close>. The
  \<open>nil\<close> map and the empty map are both the empty list: reading a key of a \<open>nil\<close> map
  finds nothing. \<open>getConfig\<close> returns the client identifier, the users and its error.
\<close>

definition addUser :: "(string \<times> string) list \<Rightarrow> userToken \<Rightarrow> (string \<times> string) list" where
  "addUser users ut =
     (if Username ut \<noteq> [] \<and> Token ut \<noteq> []
      then AList.update (Username ut) (Token ut) users
      else users)"

definition getConfig ::
    "host \<Rightarrow> (string \<times> (string \<times> string) list \<times> string option) \<times> event list" where
  "getConfig w =
     (let (clientID, ok) = pdkGetConfig w clientIDKey
      in if \<not> ok \<or> clientID = []
         then (([], [], None), [Log LogWarn ''missing ClientID in configuration''])
         else
           let (usersJSON, ok) = pdkGetConfig w usersKey
           in if \<not> ok \<or> usersJSON = []
              then ((clientID, [], None), [Log LogWarn ''no users configured''])
              else
                (case jsonUnmarshalUsers w usersJSON of
                   Inl err \<Rightarrow>
                     ((clientID, [], None),
                      [Log LogError (''failed to parse users config: '' @ err)])
                 | Inr userTokens \<Rightarrow>
                     if length userTokens = 0
                     then ((clientID, [], None), [Log LogWarn ''no users configured''])
                     else
                       let users = foldl addUser [] userTokens
                       in if length users = 0
                          then ((clientID, [], None),
                                [Log LogWarn ''no valid users configured''])
                          else ((clientID, users, None), [])))"

section \<open>PresenceOrchestrator\<close>

definition IsAuthorized ::
    "host \<Rightarrow> IsAuthorizedRequest \<Rightarrow> (bool \<times> string option) \<times> event list" where
  "IsAuthorized w input =
     (let ((clientID, users, err), ec) = getConfig w
      in case err of
           Some e \<Rightarrow> ((False, Some (''failed to check user authorization: '' @ e)), ec)
         | None \<Rightarrow>
             let authorized = (map_of users (ia_Username input) \<noteq> None)
             in ((authorized, None),
                 ec @ [Log LogInfo (''IsAuthorized for user '' @ ia_Username input @ '': ''
                         @ showBool authorized)]))"

definition clearScheduleID :: "string \<Rightarrow> string" where
  "clearScheduleID username = username @ ''-clear''"

definition buildActivity :: "host \<Rightarrow> NowPlayingRequest \<Rightarrow> string \<Rightarrow> string \<Rightarrow> activity" where
  "buildActivity w input clientID largeURL =
     (let now = timeNowUnix w;
          startTime = (now - scast (np_Position input)) * 1000;
          endTime = startTime + scast (Duration (np_Track input)) * 1000;
          activityNameOption = fst (pdkGetConfig w activityNameKey);
          activityName =
            (if activityNameOption = activityNameTrack then Title (np_Track input)
             else if activityNameOption = activityNameAlbum then Album (np_Track input)
             else if activityNameOption = activityNameArtist then Artist (np_Track input)
             else ''Navidrome'');
          navLogoOption = fst (pdkGetConfig w navLogoOverlayKey);
          smallImage = (if navLogoOption \<noteq> ''false'' then navidromeLogoURL else []);
          smallText = (if navLogoOption \<noteq> ''false'' then ''Navidrome'' else [])
      in \<lparr>Application = clientID,
          act_Name = activityName,
          act_Type = 2,
          Details = Title (np_Track input),
          DetailsURL = spotifySearch (Title (np_Track input)),
          State = Artist (np_Track input),
          StateURL = spotifySearch (Artist (np_Track input)),
          StatusDisplayType = Some 2,
          Timestamps = \<lparr>Start = startTime, End = endTime\<rparr>,
          Assets = \<lparr>LargeImage = getImageURL w (np_Username input) (ID (np_Track input)),
                    LargeText = Album (np_Track input),
                    LargeURL = largeURL,
                    SmallImage = smallImage,
                    SmallText = smallText\<rparr>\<rparr>)"

definition NowPlaying :: "host \<Rightarrow> NowPlayingRequest \<Rightarrow> scrobblerError option \<times> event list" where
  "NowPlaying w input =
     (let e0 = [Log LogInfo (''Setting presence for user '' @ np_Username input
                  @ '', track: '' @ Title (np_Track input))];
          ((clientID, users, err), ec) = getConfig w
      in case err of
           Some e \<Rightarrow>
             (Some (ScrobblerErrorRetryLater (''failed to get config: '' @ e)), e0 @ ec)
         | None \<Rightarrow>
             (case map_of users (np_Username input) of
                None \<Rightarrow>
                  (Some (ScrobblerErrorNotAuthorized
                           (''user '' @ [CHR 0x27] @ np_Username input @ [CHR 0x27]
                              @ '' not authorized'')),
                   e0 @ ec)
              | Some userToken \<Rightarrow>
                  (case rpcConnect w (np_Username input) userToken of
                     Some e \<Rightarrow>
                       (Some (ScrobblerErrorRetryLater (''failed to connect to Discord: '' @ e)),
                        e0 @ ec @ [RpcConnect (np_Username input) userToken])
                   | None \<Rightarrow>
                       let e1 = e0 @ ec @
                                [RpcConnect (np_Username input) userToken,
                                 SchedulerCancelSchedule (clearScheduleID (np_Username input)),
                                 GetImageURL (np_Username input) (ID (np_Track input))];
                           (largeURL, er) = resolveSpotifyURL w (np_Track input);
                           act = buildActivity w input clientID largeURL;
                           e2 = e1 @ er @
                                [RpcSendActivity clientID (np_Username input) userToken act]
                       in case rpcSendActivity w clientID (np_Username input) userToken act of
                            Some e \<Rightarrow>
                              (Some (ScrobblerErrorRetryLater
                                       (''failed to send activity: '' @ e)), e2)
                          | None \<Rightarrow>
                              let remainingSeconds =
                                    Duration (np_Track input) - np_Position input + 5;
                                  (h, serr) = schedulerScheduleOneTime w remainingSeconds
                                                payloadClearActivity
                                                (clearScheduleID (np_Username input));
                                  e3 = e2 @
                                       [SchedulerScheduleOneTime remainingSeconds
                                          payloadClearActivity
                                          (clearScheduleID (np_Username input))]
                              in case serr of
                                   Some e \<Rightarrow>
                                     (None, e3 @ [Log LogWarn
                                        (''Failed to schedule completion timer: '' @ e)])
                                 | None \<Rightarrow> (None, e3))))"


section \<open>Reading the events of a call\<close>

fun isLog :: "event \<Rightarrow> bool" where
  "isLog (Log l m) = True"
| "isLog e = False"

fun isTransportCall :: "event \<Rightarrow> bool" where
  "isTransportCall (RpcConnect u t) = True"
| "isTransportCall (RpcSendActivity c u t a) = True"
| "isTransportCall e = False"

fun isSchedulerCall :: "event \<Rightarrow> bool" where
  "isSchedulerCall (SchedulerCancelSchedule i) = True"
| "isSchedulerCall (SchedulerScheduleOneTime d p i) = True"
| "isSchedulerCall e = False"

text \<open>The events of a call without its log lines.\<close>

fun calls :: "event list \<Rightarrow> event list" where
  "calls [] = []"
| "calls (e # es) = (if isLog e then calls es else e # calls es)"

text \<open>The calls to the gateway and to the scheduler among the events, in order.\<close>

fun transportSchedulerCalls :: "event list \<Rightarrow> event list" where
  "transportSchedulerCalls [] = []"
| "transportSchedulerCalls (e # es) =
     (if isTransportCall e then e # transportSchedulerCalls es
      else if isSchedulerCall e then e # transportSchedulerCalls es
      else transportSchedulerCalls es)"

text \<open>
  Modelled from the spec: the scheduler is a service of the host. It keeps one schedule
  under each identifier: cancelling removes the schedule of an identifier, scheduling
  stores one. \<open>schedulerRun\<close> replays the events of a call on the schedules.
\<close>

fun schedulerStep ::
    "(string \<Rightarrow> (32 word \<times> string) option) \<Rightarrow> event \<Rightarrow> (string \<Rightarrow> (32 word \<times> string) option)" where
  "schedulerStep s (SchedulerCancelSchedule i) = s(i := None)"
| "schedulerStep s (SchedulerScheduleOneTime d p i) = s(i := Some (d, p))"
| "schedulerStep s e = s"

definition schedulerRun ::
    "(string \<Rightarrow> (32 word \<times> string) option) \<Rightarrow> event list \<Rightarrow> (string \<Rightarrow> (32 word \<times> string) option)" where
  "schedulerRun s es = foldl schedulerStep s es"



text \<open>The users and the client identifier that \<open>getConfig\<close> returns.\<close>

definition configUsers :: "host \<Rightarrow> (string \<times> string) list" where
  "configUsers w = fst (snd (fst (getConfig w)))"

definition configClientID :: "host \<Rightarrow> string" where
  "configClientID w = fst (fst (getConfig w))"

section \<open>A host in the manner of the tests\<close>

text \<open>
  The tests of the repository answer the plugin's calls from mocks. \<open>stubHost\<close> is such
  a host: the client identifier and one user are configured, the cache is empty, the
  lookup by recording identifier answers 404 and the lookup by metadata answers one
  track, and the gateway and the scheduler succeed. Its two decoders are tables: they
  answer as \<open>json.Unmarshal\<close> does on the texts listed, and with the syntax error of
  \<open>not json\<close> on every other text.
\<close>

definition jsonSyntaxError :: string where
  "jsonSyntaxError = ''invalid character '' @ [CHR 0x27] @ ''o'' @ [CHR 0x27]
     @ '' in literal null (expecting '' @ [CHR 0x27] @ ''u'' @ [CHR 0x27] @ '')''"

definition stubUnmarshalResults :: "string \<Rightarrow> string + listenBrainzResult list" where
  \<open>stubUnmarshalResults body =
     (if body = ''[]'' then Inr []
      else if body = ''[{"spotify_track_ids":["track123"]}]''
        then Inr [\<lparr>SpotifyTrackIDs = [''track123'']\<rparr>]
      else if body = ''[{"spotify_track_ids":["meta456"]}]''
        then Inr [\<lparr>SpotifyTrackIDs = [''meta456'']\<rparr>]
      else if body = ''[{"spotify_track_ids":[]},{"spotify_track_ids":["abc123"]}]''
        then Inr [\<lparr>SpotifyTrackIDs = []\<rparr>, \<lparr>SpotifyTrackIDs = [''abc123'']\<rparr>]
      else Inl jsonSyntaxError)\<close>

definition stubUnmarshalUsers :: "string \<Rightarrow> string + userToken list" where
  \<open>stubUnmarshalUsers text =
     (if text = ''[]'' then Inr []
      else if text = ''[{"username":"alice","token":"token123"}]''
        then Inr [\<lparr>Username = ''alice'', Token = ''token123''\<rparr>]
      else Inl jsonSyntaxError)\<close>

definition stubConfig :: "string \<Rightarrow> string \<times> bool" where
  \<open>stubConfig key =
     (if key = clientIDKey then (''client123'', True)
      else if key = usersKey then (''[{"username":"alice","token":"token123"}]'', True)
      else ([], False))\<close>

definition stubHTTP :: "string \<Rightarrow> string \<Rightarrow> string \<Rightarrow> 16 word \<times> string" where
  \<open>stubHTTP method url body =
     (if url = mbidEndpoint then (404, ''[]'')
      else (200, ''[{"spotify_track_ids":["meta456"]}]''))\<close>

definition stubHost :: host where
  "stubHost =
     \<lparr>pdkGetConfig = stubConfig,
      cacheGetString = (\<lambda>key. ([], False, None)),
      httpSend = stubHTTP,
      schedulerScheduleOneTime = (\<lambda>delay payload scheduleID. (scheduleID, None)),
      rpcConnect = (\<lambda>username token. None),
      rpcSendActivity = (\<lambda>clientID username token act. None),
      getImageURL = (\<lambda>username trackID. ''https://example.org/cover.png''),
      timeNowUnix = 1700000000,
      jsonUnmarshalResults = stubUnmarshalResults,
      jsonUnmarshalUsers = stubUnmarshalUsers\<rparr>"

definition testTrack :: TrackInfo where
  "testTrack =
     \<lparr>ID = ''track-1'', Title = ''Karma Police'', Album = ''OK Computer'',
      Artist = ''Radiohead'', Artists = [], Duration = 200, MBZRecordingID = ''mbid-123''\<rparr>"

definition testRequest :: NowPlayingRequest where
  "testRequest = \<lparr>np_Username = ''alice'', np_Track = testTrack, np_Position = 30\<rparr>"

text \<open>The same host with a users value that is not JSON.\<close>

definition badUsersConfig :: "string \<Rightarrow> string \<times> bool" where
  "badUsersConfig key = (if key = usersKey then (''not json'', True) else stubConfig key)"

definition badUsersHost :: host where
  "badUsersHost = stubHost\<lparr>pdkGetConfig := badUsersConfig\<rparr>"




text \<open>The same host with a gateway that refuses the activity, and with a scheduler that fails.\<close>

definition sendFailsHost :: host where
  "sendFailsHost = stubHost\<lparr>rpcSendActivity := \<lambda>clientID username token act. Some ''gateway closed''\<rparr>"


section \<open>Properties of the string functions\<close>







text \<open>\<open>Index\<close> finds an occurrence of the separator, and the first one.\<close>

lemma Index_occurs: "Index s sep = Some i \<Longrightarrow> prefix sep (drop i s)"
  by (induction s arbitrary: i) (auto split: if_splits)

lemma Index_least: "Index s sep = Some i \<Longrightarrow> j < i \<Longrightarrow> \<not> prefix sep (drop j s)"
proof (induction s arbitrary: i j)
  case Nil
  then show ?case by (simp split: if_splits)
next
  case (Cons c cs)
  then show ?case by (cases j) (auto split: if_splits)
qed

lemma Index_nonempty: "Index s sep = Some i \<Longrightarrow> sep \<noteq> [] \<Longrightarrow> s \<noteq> []"
  by (cases s) auto

section \<open>SHA-256 on a test vector\<close>

text \<open>The digest of \<open>abc\<close>, as given in FIPS 180-4, and the key of a track of the tests.\<close>

lemma sha256Sum256_abc:
  "hexEncodeToString (sha256Sum256 (bytesOf ''abc'')) =
     ''ba7816bf8f01cfea414140de5dae2223b00361a396177a9cb410ff61f20015ad''"
  by code_simp

lemma spotifyCacheKey_test:
  "spotifyCacheKey ''Radiohead'' ''Karma Police'' ''OK Computer'' = ''spotify.url.2eab4c3ecf4d86e6''"
  by code_simp

section \<open>ArtistNameParser: the separator that splits\<close>





section \<open>CacheKeyDeriver: case and collisions\<close>




















section \<open>ExternalLookupAdapter: the first identifier\<close>

lemma firstID_filter:
  "firstID ids = (case filter (\<lambda>i. i \<noteq> []) ids of [] \<Rightarrow> None | i # _ \<Rightarrow> Some i)"
  by (induction ids) auto

lemma firstResultID_filter:
  "firstResultID rs =
     (case filter (\<lambda>i. i \<noteq> []) (concat (map SpotifyTrackIDs rs)) of
        [] \<Rightarrow> None
      | i # _ \<Rightarrow> Some i)"
  by (induction rs) (auto simp: firstID_filter split: list.splits)

text \<open>
  C6. \<open>parseSpotifyID\<close> is a total function of the body. Where the body does not
  decode, the result is the empty string. Where it decodes to a list of results, the
  result is the first identifier that is not empty among the identifiers of all results,
  taken result by result and within a result in order; it is the empty string where
  there is none, so for the empty list and for results whose identifiers are all empty.
\<close>

theorem parseSpotifyID_first_nonempty:
  "parseSpotifyID w body =
     (case jsonUnmarshalResults w body of
        Inl err \<Rightarrow> []
      | Inr results \<Rightarrow>
          (case filter (\<lambda>i. i \<noteq> []) (concat (map SpotifyTrackIDs results)) of
             [] \<Rightarrow> []
           | i # _ \<Rightarrow> i))"
  by (simp add: parseSpotifyID_def firstResultID_filter split: sum.splits list.splits)

lemma stub_results_fallthrough:
  \<open>jsonUnmarshalResults stubHost ''[{"spotify_track_ids":[]},{"spotify_track_ids":["abc123"]}]'' =
     Inr [\<lparr>SpotifyTrackIDs = []\<rparr>, \<lparr>SpotifyTrackIDs = [''abc123'']\<rparr>]\<close>
  by (simp add: stubHost_def stubUnmarshalResults_def)

lemma stub_results_not_json: "jsonUnmarshalResults stubHost ''not json'' = Inl jsonSyntaxError"
  by (simp add: stubHost_def stubUnmarshalResults_def)

theorem parseSpotifyID_first_nonempty_witness:
  \<open>parseSpotifyID stubHost ''[{"spotify_track_ids":[]},{"spotify_track_ids":["abc123"]}]'' = ''abc123'' \<and>
   parseSpotifyID stubHost ''not json'' = []\<close>
  using parseSpotifyID_first_nonempty
          [of stubHost \<open>''[{"spotify_track_ids":[]},{"spotify_track_ids":["abc123"]}]''\<close>]
        parseSpotifyID_first_nonempty [of stubHost "''not json''"]
  by (simp add: stub_results_fallthrough stub_results_not_json)


section \<open>SpotifyURLResolver: cache and fallback chain\<close>


lemma transportSchedulerCalls_append:
  "transportSchedulerCalls (xs @ ys) = transportSchedulerCalls xs @ transportSchedulerCalls ys"
  by (induction xs) auto

lemma calls_Nil_transportSchedulerCalls: "calls es = [] \<Longrightarrow> transportSchedulerCalls es = []"
proof (induction es)
  case Nil
  then show ?case by simp
next
  case (Cons e es)
  then show ?case by (cases e) (simp_all split: if_splits)
qed



lemma transportSchedulerCalls_trySpotifyFromMBID:
  "transportSchedulerCalls (snd (trySpotifyFromMBID w mbid)) = []"
  by (simp add: trySpotifyFromMBID_def Let_def split: prod.splits)

lemma transportSchedulerCalls_trySpotifyFromMetadata:
  "transportSchedulerCalls (snd (trySpotifyFromMetadata w artist title album)) = []"
  by (simp add: trySpotifyFromMetadata_def Let_def split: prod.splits)












lemma stub_getConfig:
  "getConfig stubHost = ((''client123'', [(''alice'', ''token123'')], None), [])"
  by (simp add: getConfig_def stubHost_def stubConfig_def clientIDKey_def usersKey_def
      stubUnmarshalUsers_def addUser_def)

lemma stub_configUsers: "configUsers stubHost = [(''alice'', ''token123'')]"
  by (simp add: configUsers_def stub_getConfig)

lemma stub_configClientID: "configClientID stubHost = ''client123''"
  by (simp add: configClientID_def stub_getConfig)











section \<open>Configuration and authorization\<close>

lemma getConfig_no_error: "snd (snd (fst (getConfig w))) = None"
  by (simp add: getConfig_def Let_def case_prod_beta split: sum.splits)

lemma calls_getConfig: "calls (snd (getConfig w)) = []"
  by (simp add: getConfig_def Let_def case_prod_beta split: sum.splits)

lemma getConfig_eq:
  "getConfig w = ((configClientID w, configUsers w, None), snd (getConfig w))"
  using getConfig_no_error [of w]
  by (simp add: configUsers_def configClientID_def prod_eq_iff)

lemma getConfig_parse_failure:
  assumes "pdkGetConfig w clientIDKey = (cid, True)" "cid \<noteq> []"
    and "pdkGetConfig w usersKey = (usersJSON, True)" "usersJSON \<noteq> []"
    and "jsonUnmarshalUsers w usersJSON = Inl err"
  shows "getConfig w =
           ((cid, [], None), [Log LogError (''failed to parse users config: '' @ err)])"
  using assms by (simp add: getConfig_def)

text \<open>
  C9 (as amended). \<open>IsAuthorized\<close> never returns an error. Where the stored users value
  does not parse, \<open>getConfig\<close> logs the failure at error level and reports no users
  and no error, and \<open>IsAuthorized\<close> returns \<open>false\<close> with a \<open>nil\<close> error.
\<close>

theorem IsAuthorized_no_error:
  "snd (fst (IsAuthorized w input)) = None \<and>
   (pdkGetConfig w clientIDKey = (cid, True) \<and> cid \<noteq> [] \<and>
    pdkGetConfig w usersKey = (usersJSON, True) \<and> usersJSON \<noteq> [] \<and>
    jsonUnmarshalUsers w usersJSON = Inl err \<longrightarrow>
      IsAuthorized w input =
        ((False, None),
         [Log LogError (''failed to parse users config: '' @ err),
          Log LogInfo (''IsAuthorized for user '' @ ia_Username input @ '': false'')]))"
proof -
  have "snd (fst (IsAuthorized w input)) = None"
    unfolding IsAuthorized_def by (subst getConfig_eq) (simp add: Let_def)
  moreover have "IsAuthorized w input =
        ((False, None),
         [Log LogError (''failed to parse users config: '' @ err),
          Log LogInfo (''IsAuthorized for user '' @ ia_Username input @ '': false'')])"
    if "pdkGetConfig w clientIDKey = (cid, True)" "cid \<noteq> []"
      "pdkGetConfig w usersKey = (usersJSON, True)" "usersJSON \<noteq> []"
      "jsonUnmarshalUsers w usersJSON = Inl err"
    using getConfig_parse_failure [OF that]
    by (simp add: IsAuthorized_def showBool_def)
  ultimately show ?thesis by blast
qed

lemma badUsersHost_config:
  "pdkGetConfig badUsersHost clientIDKey = (''client123'', True)"
  "pdkGetConfig badUsersHost usersKey = (''not json'', True)"
  "jsonUnmarshalUsers badUsersHost ''not json'' = Inl jsonSyntaxError"
  by (simp_all add: badUsersHost_def badUsersConfig_def stubHost_def stubConfig_def
      stubUnmarshalUsers_def clientIDKey_def usersKey_def)

theorem IsAuthorized_no_error_witness:
  "IsAuthorized badUsersHost \<lparr>ia_Username = ''alice''\<rparr> =
     ((False, None),
      [Log LogError (''failed to parse users config: '' @ jsonSyntaxError),
       Log LogInfo ''IsAuthorized for user alice: false''])"
  using IsAuthorized_no_error
    [of badUsersHost "\<lparr>ia_Username = ''alice''\<rparr>" "''client123''" "''not json''" jsonSyntaxError]
  by (simp add: badUsersHost_config)

text \<open>
  C9 as stated fails: with a users value that is not JSON, loading the configuration
  meets a parse error, and \<open>IsAuthorized\<close> returns \<open>false\<close> with no error.
\<close>

theorem IsAuthorized_malformed_users_counterexample:
  "jsonUnmarshalUsers badUsersHost (fst (pdkGetConfig badUsersHost usersKey)) = Inl jsonSyntaxError \<and>
   fst (IsAuthorized badUsersHost \<lparr>ia_Username = ''alice''\<rparr>) = (False, None)"
  by (simp add: badUsersHost_config IsAuthorized_def
      getConfig_parse_failure [of badUsersHost "''client123''" "''not json''" jsonSyntaxError])


section \<open>PresenceOrchestrator: the now-playing update\<close>

lemma transportSchedulerCalls_resolveSearch:
  "transportSchedulerCalls (snd (resolveSearch track primary key es)) =
     transportSchedulerCalls es"
  by (simp add: resolveSearch_def Let_def transportSchedulerCalls_append)

lemma transportSchedulerCalls_resolveMetadata:
  "transportSchedulerCalls (snd (resolveMetadata w track primary key es)) =
     transportSchedulerCalls es"
  by (simp add: resolveMetadata_def case_prod_beta transportSchedulerCalls_append
      transportSchedulerCalls_resolveSearch transportSchedulerCalls_trySpotifyFromMetadata)

lemma transportSchedulerCalls_resolveSpotifyURL:
  "transportSchedulerCalls (snd (resolveSpotifyURL w track)) = []"
  by (simp add: resolveSpotifyURL_def Let_def case_prod_beta transportSchedulerCalls_append
      transportSchedulerCalls_resolveMetadata transportSchedulerCalls_trySpotifyFromMBID)

lemma transportSchedulerCalls_getConfig: "transportSchedulerCalls (snd (getConfig w)) = []"
  by (rule calls_Nil_transportSchedulerCalls [OF calls_getConfig])

lemma schedulerRun_calls:
  "schedulerRun s es = schedulerRun s (transportSchedulerCalls es)"
  unfolding schedulerRun_def
proof (induction es arbitrary: s)
  case Nil
  then show ?case by simp
next
  case (Cons e es)
  then show ?case by (cases e) (simp_all add: fun_upd_def)
qed


text \<open>\<open>NowPlaying\<close> with the result of \<open>getConfig\<close> written by its parts.\<close>

lemma NowPlaying_unfold:
  "NowPlaying w input =
     (let e0 = [Log LogInfo (''Setting presence for user '' @ np_Username input
                  @ '', track: '' @ Title (np_Track input))];
          ec = snd (getConfig w);
          clientID = configClientID w
      in case map_of (configUsers w) (np_Username input) of
           None \<Rightarrow>
             (Some (ScrobblerErrorNotAuthorized
                      (''user '' @ [CHR 0x27] @ np_Username input @ [CHR 0x27]
                         @ '' not authorized'')),
              e0 @ ec)
         | Some userToken \<Rightarrow>
             (case rpcConnect w (np_Username input) userToken of
                Some e \<Rightarrow>
                  (Some (ScrobblerErrorRetryLater (''failed to connect to Discord: '' @ e)),
                   e0 @ ec @ [RpcConnect (np_Username input) userToken])
              | None \<Rightarrow>
                  let e1 = e0 @ ec @
                           [RpcConnect (np_Username input) userToken,
                            SchedulerCancelSchedule (clearScheduleID (np_Username input)),
                            GetImageURL (np_Username input) (ID (np_Track input))];
                      act = buildActivity w input clientID
                              (fst (resolveSpotifyURL w (np_Track input)));
                      e2 = e1 @ snd (resolveSpotifyURL w (np_Track input)) @
                           [RpcSendActivity clientID (np_Username input) userToken act]
                  in case rpcSendActivity w clientID (np_Username input) userToken act of
                       Some e \<Rightarrow>
                         (Some (ScrobblerErrorRetryLater (''failed to send activity: '' @ e)), e2)
                     | None \<Rightarrow>
                         let remainingSeconds =
                               Duration (np_Track input) - np_Position input + 5;
                             e3 = e2 @
                                  [SchedulerScheduleOneTime remainingSeconds
                                     payloadClearActivity
                                     (clearScheduleID (np_Username input))]
                         in case snd (schedulerScheduleOneTime w remainingSeconds
                                        payloadClearActivity
                                        (clearScheduleID (np_Username input))) of
                              Some e \<Rightarrow>
                                (None, e3 @ [Log LogWarn
                                   (''Failed to schedule completion timer: '' @ e)])
                            | None \<Rightarrow> (None, e3)))"
  unfolding NowPlaying_def
  by (subst getConfig_eq) (simp add: Let_def case_prod_beta split: option.splits)

text \<open>
  C7. Where the user name is not among the configured users, \<open>NowPlaying\<close> returns the
  not-authorized error; it calls neither the gateway nor the scheduler (its only events
  are log lines), and the schedules of the host are as they were.
\<close>

theorem NowPlaying_not_authorized:
  assumes "map_of (configUsers w) (np_Username input) = None"
  shows "fst (NowPlaying w input) =
           Some (ScrobblerErrorNotAuthorized
                   (''user '' @ [CHR 0x27] @ np_Username input @ [CHR 0x27] @ '' not authorized'')) \<and>
         transportSchedulerCalls (snd (NowPlaying w input)) = [] \<and>
         calls (snd (NowPlaying w input)) = [] \<and>
         schedulerRun s (snd (NowPlaying w input)) = s"
proof -
  have np: "NowPlaying w input =
     (Some (ScrobblerErrorNotAuthorized
              (''user '' @ [CHR 0x27] @ np_Username input @ [CHR 0x27] @ '' not authorized'')),
      Log LogInfo (''Setting presence for user '' @ np_Username input
                  @ '', track: '' @ Title (np_Track input)) # snd (getConfig w))"
    using assms by (simp add: NowPlaying_unfold Let_def)
  have c: "calls (snd (NowPlaying w input)) = []"
    by (simp add: np calls_getConfig)
  have "schedulerRun s (snd (NowPlaying w input)) = s"
    by (subst schedulerRun_calls)
       (simp add: calls_Nil_transportSchedulerCalls [OF c] schedulerRun_def)
  with np c show ?thesis
    by (simp add: calls_Nil_transportSchedulerCalls)
qed

theorem NowPlaying_not_authorized_witness:
  "map_of (configUsers stubHost) ''bob'' = None \<and>
   fst (NowPlaying stubHost (testRequest\<lparr>np_Username := ''bob''\<rparr>)) =
     Some (ScrobblerErrorNotAuthorized (''user '' @ [CHR 0x27] @ ''bob'' @ [CHR 0x27] @ '' not authorized'')) \<and>
   transportSchedulerCalls (snd (NowPlaying stubHost (testRequest\<lparr>np_Username := ''bob''\<rparr>))) = []"
  using NowPlaying_not_authorized [of stubHost "testRequest\<lparr>np_Username := ''bob''\<rparr>"]
  by (simp add: stub_configUsers)






lemma testRequest_fields:
  "np_Username testRequest = ''alice''"
  "Duration (np_Track testRequest) - np_Position testRequest + 5 = 175"
  "sint (Duration (np_Track testRequest)) = 200"
  "sint (np_Position testRequest) = 30"
  by (simp_all add: testRequest_def testTrack_def)


text \<open>
  C10. Where the user is configured, the gateway accepts the connection and refuses the
  activity, \<open>NowPlaying\<close> returns the retry-later error. Its calls to the gateway and
  the scheduler are then connect, cancel the schedule \<open><username>-clear\<close>, send: the
  cancellation precedes the send and no schedule is created, so that after the call the
  scheduler holds no schedule under \<open><username>-clear\<close>, whatever it held before.
\<close>

theorem NowPlaying_send_failure:
  assumes "map_of (configUsers w) (np_Username input) = Some token"
    and "rpcConnect w (np_Username input) token = None"
    and "act = buildActivity w input (configClientID w) (fst (resolveSpotifyURL w (np_Track input)))"
    and "rpcSendActivity w (configClientID w) (np_Username input) token act = Some e"
  shows "fst (NowPlaying w input) =
           Some (ScrobblerErrorRetryLater (''failed to send activity: '' @ e)) \<and>
         transportSchedulerCalls (snd (NowPlaying w input)) =
           [RpcConnect (np_Username input) token,
            SchedulerCancelSchedule (np_Username input @ ''-clear''),
            RpcSendActivity (configClientID w) (np_Username input) token act] \<and>
         schedulerRun s (snd (NowPlaying w input)) (np_Username input @ ''-clear'') = None"
proof -
  have np: "NowPlaying w input =
      (Some (ScrobblerErrorRetryLater (''failed to send activity: '' @ e)),
       [Log LogInfo (''Setting presence for user '' @ np_Username input
                  @ '', track: '' @ Title (np_Track input))] @ snd (getConfig w) @
       [RpcConnect (np_Username input) token,
        SchedulerCancelSchedule (clearScheduleID (np_Username input)),
        GetImageURL (np_Username input) (ID (np_Track input))] @
       snd (resolveSpotifyURL w (np_Track input)) @
       [RpcSendActivity (configClientID w) (np_Username input) token act])"
    using assms by (simp add: NowPlaying_unfold Let_def)
  have tsc: "transportSchedulerCalls (snd (NowPlaying w input)) =
           [RpcConnect (np_Username input) token,
            SchedulerCancelSchedule (np_Username input @ ''-clear''),
            RpcSendActivity (configClientID w) (np_Username input) token act]"
    by (simp add: np transportSchedulerCalls_append transportSchedulerCalls_resolveSpotifyURL
        transportSchedulerCalls_getConfig clearScheduleID_def)
  have "schedulerRun s (snd (NowPlaying w input)) (np_Username input @ ''-clear'') = None"
    by (subst schedulerRun_calls) (simp add: tsc schedulerRun_def)
  with np tsc show ?thesis by simp
qed

lemma getConfig_send_irrelevant:
  "getConfig (w\<lparr>rpcSendActivity := f\<rparr>) = getConfig w"
  by (simp add: getConfig_def Let_def case_prod_beta)

lemma sendFailsHost_config:
  "configUsers sendFailsHost = [(''alice'', ''token123'')]"
  "configClientID sendFailsHost = ''client123''"
  by (simp_all add: configUsers_def configClientID_def sendFailsHost_def
      getConfig_send_irrelevant stub_getConfig)

lemma sendFailsHost_gateway:
  "rpcConnect sendFailsHost u t = None"
  "rpcSendActivity sendFailsHost c u t a = Some ''gateway closed''"
  by (simp_all add: sendFailsHost_def stubHost_def)

theorem NowPlaying_send_failure_witness:
  "fst (NowPlaying sendFailsHost testRequest) =
     Some (ScrobblerErrorRetryLater ''failed to send activity: gateway closed'') \<and>
   transportSchedulerCalls (snd (NowPlaying sendFailsHost testRequest)) =
     [RpcConnect ''alice'' ''token123'',
      SchedulerCancelSchedule ''alice-clear'',
      RpcSendActivity ''client123'' ''alice'' ''token123''
        (buildActivity sendFailsHost testRequest ''client123''
           (fst (resolveSpotifyURL sendFailsHost (np_Track testRequest))))] \<and>
   schedulerRun (\<lambda>i. Some (100, payloadClearActivity))
     (snd (NowPlaying sendFailsHost testRequest)) ''alice-clear'' = None"
  using NowPlaying_send_failure
    [of sendFailsHost testRequest "''token123''"
        "buildActivity sendFailsHost testRequest ''client123''
           (fst (resolveSpotifyURL sendFailsHost (np_Track testRequest)))"
        "''gateway closed''" "\<lambda>i. Some (100, payloadClearActivity)"]
  by (simp add: sendFailsHost_config sendFailsHost_gateway testRequest_fields)

end
